theory Spec2Isabelle
  imports Complex_Main
begin

section \<open>The cuDNN layer-norm executor: data model\<close>

text \<open>
  A shallow embedding of \<^verbatim>\<open>thunder/executors/cudnn_layernormex.py\<close>.
  Everything the module consumes from torch, numpy, functools and cudnn is modelled by
  its documented behaviour; what cudnn decides (whether a graph builds, whether it
  executes, how much workspace it needs) is a field of the environment record, so that
  every theorem holds for every behaviour of the accelerator.
\<close>

datatype dtype = Float16 | BFloat16 | Float32 | Float64 | Int32 | Int64 | UInt8

datatype device_type = CPU | CUDA

text \<open>\<^verbatim>\<open>torch.device\<close>: a type and an index; the index is \<^verbatim>\<open>None\<close> for a
  device written without one (\<^verbatim>\<open>"cpu"\<close>).\<close>

record device =
  dev_type :: device_type
  index :: "int option"

text \<open>What a buffer holds, as far as this module determines it: \<^verbatim>\<open>zeros_like\<close>
  writes zeros, \<^verbatim>\<open>full\<close> writes one scalar, \<^verbatim>\<open>empty\<close> writes nothing, and
  \<open>Data n\<close> stands for any other values (the caller's tensors, a graph's output).\<close>

datatype contents = Zeros | Full real | Uninitialized | Data nat

text \<open>A live \<^verbatim>\<open>torch.Tensor\<close>: logical extents, memory strides, element type, device,
  the identity of its buffer and what the buffer holds.\<close>

record torch_tensor =
  shape :: "int list"
  stride :: "int list"
  dtype :: dtype
  device :: device
  storage :: nat
  contents :: contents

text \<open>The frozen dataclass of the source (lines 16-21). Its generated \<^verbatim>\<open>__eq__\<close> and
  \<^verbatim>\<open>__hash__\<close> are field-wise, which is HOL's equality on the record. The field
  \<^verbatim>\<open>size\<close> is \<open>size_attr\<close> here (\<open>size\<close> is a constant of HOL), and likewise
  \<open>stride_attr\<close> and \<open>dtype_attr\<close>, which would clash with the tensor's fields. Python
  does not enforce the annotation \<^verbatim>\<open>device_index: int\<close>: the canonicalizer stores
  \<^verbatim>\<open>a.device.index\<close>, which may be \<^verbatim>\<open>None\<close>.\<close>

record CudnnTensorAttributes =
  size_attr :: "int list"
  stride_attr :: "int list"
  dtype_attr :: dtype
  device_index :: "int option"

datatype exn =
    NameError
  | AttributeError
  | TypeError
  | KeyError
  | CudnnError
  | RuntimeError

section \<open>numpy and Python helpers\<close>

text \<open>numpy computes \<^verbatim>\<open>np.prod\<close> of a tuple of Python ints in its default integer
  type, signed 64 bits, and wraps silently on overflow. \<open>wrap64\<close> reads an integer
  as a two's-complement 64-bit value.\<close>

definition wrap64 :: "int \<Rightarrow> int" where
  "wrap64 x = signed_take_bit 63 x"

text \<open>\<^verbatim>\<open>np.prod(xs)\<close> and \<^verbatim>\<open>np.prod(xs, dtype=int)\<close>, for extents that are
  themselves 64-bit values, as the extents of a tensor are: a left-to-right reduction
  starting from 1, each step in 64-bit arithmetic. (For the empty tuple the first form
  returns the float \<^verbatim>\<open>1.0\<close>, which Python compares and hashes equal to \<^verbatim>\<open>1\<close>; the
  model keeps the number.)\<close>

definition np_prod :: "int list \<Rightarrow> int" where
  "np_prod xs = fold (\<lambda>x acc. wrap64 (acc * x)) xs 1"

text \<open>Python's \<^verbatim>\<open>xs[:stop]\<close>: a negative stop counts from the end, and the slice is
  clipped to the sequence.\<close>

definition slice_upto :: "'a list \<Rightarrow> int \<Rightarrow> 'a list" where
  "slice_upto xs stop =
     take (nat (if stop < 0 then int (length xs) + stop else stop)) xs"

section \<open>The shape canonicalizer\<close>

text \<open>\<^verbatim>\<open>weight\<close> and \<^verbatim>\<open>bias\<close> default to \<^verbatim>\<open>None\<close> in both callers, so they are
  options here; reading \<^verbatim>\<open>.dtype\<close> of \<^verbatim>\<open>None\<close> raises \<^verbatim>\<open>AttributeError\<close>.\<close>

definition tensor_attr :: "torch_tensor option \<Rightarrow> exn + torch_tensor" where
  "tensor_attr t = (case t of None \<Rightarrow> Inl AttributeError | Some x \<Rightarrow> Inr x)"

text \<open>Lines 76-88. The three descriptors are built in the order of the source: the
  input's first, then the weight's, then the bias's.\<close>

definition transform_layer_norm_inputs ::
  "torch_tensor \<Rightarrow> int list \<Rightarrow> torch_tensor option \<Rightarrow> torch_tensor option
     \<Rightarrow> exn + (CudnnTensorAttributes \<times> CudnnTensorAttributes \<times> CudnnTensorAttributes)"
where
  "transform_layer_norm_inputs a normalized_shape weight bias =
     (let elements_to_normalize = np_prod normalized_shape;
          batch_size = np_prod (slice_upto (shape a) (- int (length normalized_shape)));
          assumed_stride = [elements_to_normalize, 1, 1, 1];
          a_4d = \<lparr>size_attr = [batch_size, elements_to_normalize, 1, 1],
                  stride_attr = assumed_stride,
                  dtype_attr = dtype a, device_index = index (device a)\<rparr>
      in case tensor_attr weight of
           Inl e \<Rightarrow> Inl e
         | Inr w \<Rightarrow>
            (let weight_4d = \<lparr>size_attr = [1, elements_to_normalize, 1, 1],
                              stride_attr = assumed_stride,
                              dtype_attr = dtype w, device_index = index (device w)\<rparr>
             in case tensor_attr bias of
                  Inl e \<Rightarrow> Inl e
                | Inr b \<Rightarrow>
                   (let bias_4d = \<lparr>size_attr = [1, elements_to_normalize, 1, 1],
                                    stride_attr = assumed_stride,
                                    dtype_attr = dtype b, device_index = index (device b)\<rparr>
                    in Inr (a_4d, weight_4d, bias_4d))))"

section \<open>The cudnn graph and the environment\<close>

datatype cudnn_dtype = FLOAT | HALF | BFLOAT16 | DOUBLE | INT32 | INT64 | UINT8

datatype norm_forward_phase = INFERENCE | TRAINING

datatype heur_mode = Heur_A | Heur_B | Heur_FALLBACK

text \<open>A symbolic tensor of a cudnn graph, with the attributes this module sets. The
  output \<^verbatim>\<open>Y\<close> of the layer-norm node gets no \<^verbatim>\<open>dim\<close> from this code (cudnn infers
  it when the graph is built), hence the option.\<close>

record graph_tensor =
  name :: string
  dim :: "int list option"
  tensor_stride :: "int list"
  data_type :: cudnn_dtype
  is_pass_by_value :: bool
  is_output :: bool

text \<open>The \<^verbatim>\<open>cudnn.pygraph\<close> object after the calls of lines 42-65. \<open>graph_id\<close>
  stands for the identity of the Python object: the number of invocations of the
  builder's body before the one that constructed it.\<close>

record pygraph =
  graph_id :: nat
  intermediate_data_type :: cudnn_dtype
  compute_data_type :: cudnn_dtype
  ln_phase :: norm_forward_phase
  ln_input :: graph_tensor
  ln_scale :: graph_tensor
  ln_bias :: graph_tensor
  ln_epsilon :: graph_tensor
  ln_Y :: graph_tensor
  heur_modes :: "heur_mode list"

text \<open>The value the graph builder returns: \<^verbatim>\<open>input, scale, bias, epsilon, Y, graph\<close>.\<close>

type_synonym graph_entry =
  "graph_tensor \<times> graph_tensor \<times> graph_tensor \<times> graph_tensor \<times> graph_tensor \<times> pygraph"

text \<open>The \<^verbatim>\<open>dict\<close> handed to \<^verbatim>\<open>graph.execute\<close>, in insertion order. A value is
  an option because \<^verbatim>\<open>weight\<close> and \<^verbatim>\<open>bias\<close> are.\<close>

type_synonym variant_pack = "(graph_tensor \<times> torch_tensor option) list"

text \<open>What the module does not decide. \<open>cudnn_available\<close> is the result of
  \<^verbatim>\<open>cudnn_available()\<close> when the module is imported; \<open>torch_to_cudnn_dtype\<close> is
  imported from \<^verbatim>\<open>thunder.executors.cudnnex\<close>, which is not part of the source at
  hand; \<open>graph_build\<close> is the verdict of cudnn on the assembled graph (\<open>None\<close>: it
  builds); \<open>graph_execute\<close> is the outcome of running it (the values written to the
  output buffer, or an exception); \<open>current_cuda_device\<close> is the device that
  \<^verbatim>\<open>device="cuda"\<close> denotes; \<open>preserve_format_stride\<close> is torch's choice of strides
  for \<^verbatim>\<open>zeros_like\<close>. Each call takes its own environment, so the accelerator may
  answer differently from one call to the next.\<close>

record env =
  cudnn_available :: bool
  torch_to_cudnn_dtype :: "dtype \<Rightarrow> exn + cudnn_dtype"
  graph_build :: "pygraph \<Rightarrow> exn option"
  get_workspace_size :: "pygraph \<Rightarrow> nat"
  graph_execute :: "pygraph \<Rightarrow> variant_pack \<Rightarrow> torch_tensor \<Rightarrow> exn + contents"
  current_cuda_device :: int
  preserve_format_stride :: "torch_tensor \<Rightarrow> int list"

text \<open>The module's global \<^verbatim>\<open>cudnn\<close>. Its only binding is the \<^verbatim>\<open>import cudnn\<close> of
  line 126, under \<^verbatim>\<open>if cudnn_available():\<close>; the import of line 12 does not bring the
  name in. Reading an unbound global raises \<^verbatim>\<open>NameError\<close>.\<close>

datatype global_binding = Unbound | Bound_None | Bound_Module

definition cudnn :: "env \<Rightarrow> global_binding" where
  "cudnn e = (if cudnn_available e then Bound_Module else Unbound)"

text \<open>The mutable state of the process that the module touches: the cache of
  \<^verbatim>\<open>lru_cache\<close> (most recently used first), the log of the invocations of the graph
  builder's body (by key), the log of the calls to \<^verbatim>\<open>graph.execute\<close>, and the
  number of buffers torch has allocated for this module (a fresh buffer takes it as
  its identity).\<close>

type_synonym key = "CudnnTensorAttributes list"

record state =
  cache :: "(key \<times> graph_entry) list"
  builds :: "key list"
  executed :: "(pygraph \<times> variant_pack \<times> torch_tensor) list"
  allocated :: nat

type_synonym 'a result = "(exn + 'a) \<times> state"

section \<open>The graph builder\<close>

text \<open>Lines 41-69, the function under the two decorators. It takes exactly three
  positional arguments; Python raises \<^verbatim>\<open>TypeError\<close> on any other number, before the
  body runs.\<close>

definition make_cudnn_layer_norm_graph_uncached :: "env \<Rightarrow> state \<Rightarrow> key \<Rightarrow> graph_entry result"
where
  "make_cudnn_layer_norm_graph_uncached e st args =
     (case args of
        [a_4d, weight_4d, bias_4d] \<Rightarrow>
          (let st1 = st\<lparr>builds := builds st @ [args]\<rparr> in
           case cudnn e of
             Unbound \<Rightarrow> (Inl NameError, st1)
           | Bound_None \<Rightarrow> (Inl AttributeError, st1)
           | Bound_Module \<Rightarrow>
              (case torch_to_cudnn_dtype e (dtype_attr a_4d) of
                 Inl x \<Rightarrow> (Inl x, st1)
               | Inr da \<Rightarrow>
              (case torch_to_cudnn_dtype e (dtype_attr weight_4d) of
                 Inl x \<Rightarrow> (Inl x, st1)
               | Inr dw \<Rightarrow>
              (case torch_to_cudnn_dtype e (dtype_attr bias_4d) of
                 Inl x \<Rightarrow> (Inl x, st1)
               | Inr db \<Rightarrow>
                 (let input = \<lparr>name = ''input'', dim = Some (size_attr a_4d),
                                tensor_stride = stride_attr a_4d, data_type = da,
                                is_pass_by_value = False, is_output = False\<rparr>;
                      scale = \<lparr>name = ''scale'', dim = Some (size_attr weight_4d),
                                tensor_stride = stride_attr weight_4d, data_type = dw,
                                is_pass_by_value = False, is_output = False\<rparr>;
                      bias = \<lparr>name = ''bias'', dim = Some (size_attr bias_4d),
                               tensor_stride = stride_attr bias_4d, data_type = db,
                               is_pass_by_value = False, is_output = False\<rparr>;
                      epsilon = \<lparr>name = ''epsilon'', dim = Some [1, 1, 1, 1],
                                  tensor_stride = [1, 1, 1, 1], data_type = FLOAT,
                                  is_pass_by_value = True, is_output = False\<rparr>;
                      Y = \<lparr>name = ''LN::Y'', dim = None,
                            tensor_stride = stride_attr a_4d, data_type = da,
                            is_pass_by_value = False, is_output = True\<rparr>;
                      graph = \<lparr>graph_id = length (builds st),
                                intermediate_data_type = FLOAT, compute_data_type = FLOAT,
                                ln_phase = INFERENCE, ln_input = input, ln_scale = scale,
                                ln_bias = bias, ln_epsilon = epsilon, ln_Y = Y,
                                heur_modes = [Heur_A]\<rparr>
                  in case graph_build e graph of
                       Some x \<Rightarrow> (Inl x, st1)
                     | None \<Rightarrow> (Inr (input, scale, bias, epsilon, Y, graph), st1))))))
      | _ \<Rightarrow> (Inl TypeError, st))"

section \<open>The decorators\<close>

text \<open>\<^verbatim>\<open>functools.lru_cache(maxsize=1024)\<close>, as CPython implements it: a hit moves
  the entry to the most recent position and returns its result without calling the
  function; a miss calls the function, lets its exception pass without storing
  anything, and otherwise stores the result, in place of the least recently used entry
  when the cache is full. The key is the tuple of positional arguments.\<close>

definition maxsize :: nat where
  "maxsize = 1024"

definition lru_store :: "key \<Rightarrow> graph_entry \<Rightarrow> (key \<times> graph_entry) list \<Rightarrow> (key \<times> graph_entry) list"
where
  "lru_store k v c =
     (if map_of c k \<noteq> None then c
      else if maxsize \<le> length c then (k, v) # butlast c
      else (k, v) # c)"

definition lru_cache ::
  "(env \<Rightarrow> state \<Rightarrow> key \<Rightarrow> graph_entry result) \<Rightarrow> env \<Rightarrow> state \<Rightarrow> key \<Rightarrow> graph_entry result"
where
  "lru_cache user_function e st k =
     (case map_of (cache st) k of
        Some v \<Rightarrow> (Inr v, st\<lparr>cache := (k, v) # filter (\<lambda>p. fst p \<noteq> k) (cache st)\<rparr>)
      | None \<Rightarrow>
         (case user_function e st k of
            (Inl x, st') \<Rightarrow> (Inl x, st')
          | (Inr v, st') \<Rightarrow> (Inr v, st'\<lparr>cache := lru_store k v (cache st')\<rparr>)))"

text \<open>A positional argument of the wrapper of lines 24-36: a live tensor, or a value
  that is not one (on this module's call paths, a descriptor).\<close>

datatype arg = Tensor torch_tensor | Attrs CudnnTensorAttributes

text \<open>Line 28 reads \<^verbatim>\<open>args.device_index\<close>, an attribute of the tuple of all the
  arguments; a tuple has none.\<close>

definition args_device_index :: "arg list \<Rightarrow> exn + int option" where
  "args_device_index args = Inl AttributeError"

definition cacheable_arg :: "arg list \<Rightarrow> arg \<Rightarrow> exn + CudnnTensorAttributes" where
  "cacheable_arg args x =
     (case x of
        Tensor t \<Rightarrow>
          (case args_device_index args of
             Inl ex \<Rightarrow> Inl ex
           | Inr i \<Rightarrow> Inr \<lparr>size_attr = shape t, stride_attr = stride t,
                            dtype_attr = dtype t, device_index = i\<rparr>)
      | Attrs d \<Rightarrow> Inr d)"

text \<open>The list comprehension of lines 26-33: the arguments are converted from left
  to right, and the first exception ends it.\<close>

fun cudnn_input_args :: "arg list \<Rightarrow> arg list \<Rightarrow> exn + key" where
  "cudnn_input_args args [] = Inr []"
| "cudnn_input_args args (x # xs) =
     (case cacheable_arg args x of
        Inl ex \<Rightarrow> Inl ex
      | Inr d \<Rightarrow>
         (case cudnn_input_args args xs of
            Inl ex \<Rightarrow> Inl ex
          | Inr ds \<Rightarrow> Inr (d # ds)))"

definition make_cacheable_cudnn_graph_inputs ::
  "(env \<Rightarrow> state \<Rightarrow> key \<Rightarrow> graph_entry result) \<Rightarrow> env \<Rightarrow> state \<Rightarrow> arg list \<Rightarrow> graph_entry result"
where
  "make_cacheable_cudnn_graph_inputs func e st args =
     (case cudnn_input_args args args of
        Inl ex \<Rightarrow> (Inl ex, st)
      | Inr ds \<Rightarrow> func e st ds)"

text \<open>The name \<^verbatim>\<open>_make_cudnn_layer_norm_graph\<close> of the module: the function of lines
  41-69 under \<^verbatim>\<open>lru_cache\<close> under the wrapper.\<close>

definition make_cudnn_layer_norm_graph :: "env \<Rightarrow> state \<Rightarrow> arg list \<Rightarrow> graph_entry result" where
  "make_cudnn_layer_norm_graph =
     make_cacheable_cudnn_graph_inputs (lru_cache make_cudnn_layer_norm_graph_uncached)"

section \<open>Execution and the compatibility check\<close>

text \<open>The three allocations of \<^verbatim>\<open>layer_norm_impl\<close>. Each returns a tensor on a
  buffer of its own.\<close>

definition zeros_like_cuda :: "env \<Rightarrow> state \<Rightarrow> torch_tensor \<Rightarrow> torch_tensor \<times> state" where
  "zeros_like_cuda e st a =
     (\<lparr>shape = shape a, stride = preserve_format_stride e a, dtype = dtype a,
       device = \<lparr>dev_type = CUDA, index = Some (current_cuda_device e)\<rparr>,
       storage = allocated st, contents = Zeros\<rparr>,
      st\<lparr>allocated := Suc (allocated st)\<rparr>)"

definition full_1111_float32_cpu :: "state \<Rightarrow> real \<Rightarrow> torch_tensor \<times> state" where
  "full_1111_float32_cpu st v =
     (\<lparr>shape = [1, 1, 1, 1], stride = [1, 1, 1, 1], dtype = Float32,
       device = \<lparr>dev_type = CPU, index = None\<rparr>,
       storage = allocated st, contents = Full v\<rparr>,
      st\<lparr>allocated := Suc (allocated st)\<rparr>)"

definition empty_uint8_cuda :: "env \<Rightarrow> state \<Rightarrow> nat \<Rightarrow> torch_tensor \<times> state" where
  "empty_uint8_cuda e st n =
     (\<lparr>shape = [int n], stride = [1], dtype = UInt8,
       device = \<lparr>dev_type = CUDA, index = Some (current_cuda_device e)\<rparr>,
       storage = allocated st, contents = Uninitialized\<rparr>,
      st\<lparr>allocated := Suc (allocated st)\<rparr>)"

text \<open>Lines 91-105.\<close>

definition layer_norm_impl ::
  "env \<Rightarrow> state \<Rightarrow> torch_tensor \<Rightarrow> int list \<Rightarrow> torch_tensor option \<Rightarrow> torch_tensor option
     \<Rightarrow> real \<Rightarrow> torch_tensor result"
where
  "layer_norm_impl e st a normalized_shape weight bias eps =
     (case transform_layer_norm_inputs a normalized_shape weight bias of
        Inl x \<Rightarrow> (Inl x, st)
      | Inr (a_4d, weight_4d, bias_4d) \<Rightarrow>
         (case make_cudnn_layer_norm_graph e st [Attrs a_4d, Attrs weight_4d, Attrs bias_4d] of
            (Inl x, st1) \<Rightarrow> (Inl x, st1)
          | (Inr (input, scale, B, epsilon, Y, graph), st1) \<Rightarrow>
             (let (Y_actual, st2) = zeros_like_cuda e st1 a;
                  (epsilon_cpu, st3) = full_1111_float32_cpu st2 eps;
                  (workspace, st4) = empty_uint8_cuda e st3 (get_workspace_size e graph);
                  cudnn_to_torch_tensor =
                    [(input, Some a), (scale, weight), (B, bias),
                     (epsilon, Some epsilon_cpu), (Y, Some Y_actual)];
                  st5 = st4\<lparr>executed :=
                          executed st4 @ [(graph, cudnn_to_torch_tensor, workspace)]\<rparr>
              in case graph_execute e graph cudnn_to_torch_tensor workspace of
                   Inl x \<Rightarrow> (Inl x, st5)
                 | Inr written \<Rightarrow> (Inr (Y_actual\<lparr>contents := written\<rparr>), st5))))"

text \<open>Lines 108-119. The canonicalization stands outside the \<^verbatim>\<open>try\<close>; the bare
  \<^verbatim>\<open>except\<close> turns every exception of the graph builder into \<^verbatim>\<open>False\<close>.\<close>

definition layer_norm_checker ::
  "env \<Rightarrow> state \<Rightarrow> torch_tensor \<Rightarrow> int list \<Rightarrow> torch_tensor option \<Rightarrow> torch_tensor option
     \<Rightarrow> real \<Rightarrow> bool result"
where
  "layer_norm_checker e st a normalized_shape weight bias eps =
     (case cudnn e of
        Unbound \<Rightarrow> (Inl NameError, st)
      | Bound_None \<Rightarrow> (Inr False, st)
      | Bound_Module \<Rightarrow>
         (case transform_layer_norm_inputs a normalized_shape weight bias of
            Inl x \<Rightarrow> (Inl x, st)
          | Inr (a_4d, weight_4d, bias_4d) \<Rightarrow>
             (case make_cudnn_layer_norm_graph e st [Attrs a_4d, Attrs weight_4d, Attrs bias_4d] of
                (Inl x, st1) \<Rightarrow> (Inr False, st1)
              | (Inr entry, st1) \<Rightarrow> (Inr True, st1))))"

section \<open>Keys and sequences of calls\<close>





section \<open>Concrete inputs\<close>

text \<open>The inputs at which the theorems below are instantiated: the scenario of the
  specification (an input of shape \<open>(8, 16, 64)\<close>, normalized over its last axis), a
  second tensor of the same shape on another buffer with other strides, and
  environments in which cudnn accepts every graph, rejects every graph, or is absent.\<close>

definition cuda_device :: "int \<Rightarrow> device" where
  "cuda_device i = \<lparr>dev_type = CUDA, index = Some i\<rparr>"

definition example_input :: torch_tensor where
  "example_input = \<lparr>shape = [8, 16, 64], stride = [1024, 64, 1], dtype = Float32,
                     device = cuda_device 0, storage = 100, contents = Data 0\<rparr>"

definition example_input2 :: torch_tensor where
  "example_input2 = \<lparr>shape = [8, 16, 64], stride = [64, 512, 1], dtype = Float32,
                      device = cuda_device 0, storage = 200, contents = Data 1\<rparr>"

definition example_weight :: torch_tensor where
  "example_weight = \<lparr>shape = [64], stride = [1], dtype = Float32,
                      device = cuda_device 0, storage = 101, contents = Data 2\<rparr>"

definition example_bias :: torch_tensor where
  "example_bias = \<lparr>shape = [64], stride = [1], dtype = Float32,
                    device = cuda_device 0, storage = 102, contents = Data 3\<rparr>"

definition example_dtype_map :: "dtype \<Rightarrow> exn + cudnn_dtype" where
  "example_dtype_map d =
     (case d of
        Float16 \<Rightarrow> Inr HALF | BFloat16 \<Rightarrow> Inr BFLOAT16 | Float32 \<Rightarrow> Inr FLOAT
      | Float64 \<Rightarrow> Inr DOUBLE | Int32 \<Rightarrow> Inr INT32 | Int64 \<Rightarrow> Inr INT64
      | UInt8 \<Rightarrow> Inr UINT8)"

definition env_ok :: env where
  "env_ok = \<lparr>cudnn_available = True, torch_to_cudnn_dtype = example_dtype_map,
              graph_build = (\<lambda>g. None), get_workspace_size = (\<lambda>g. 4096),
              graph_execute = (\<lambda>g pack ws. Inr (Data 9)),
              current_cuda_device = 0, preserve_format_stride = stride\<rparr>"

definition env_reject :: env where
  "env_reject = env_ok\<lparr>graph_build := (\<lambda>g. Some CudnnError)\<rparr>"

definition env_unavailable :: env where
  "env_unavailable = env_ok\<lparr>cudnn_available := False\<rparr>"

definition init_state :: state where
  "init_state = \<lparr>cache = [], builds = [], executed = [], allocated = 0\<rparr>"

text \<open>The canonical descriptors of the scenario, and the entry that the graph builder
  returns for them when it is the \<open>n\<close>-th invocation.\<close>

definition example_a_4d :: CudnnTensorAttributes where
  "example_a_4d = \<lparr>size_attr = [128, 64, 1, 1], stride_attr = [64, 1, 1, 1],
                    dtype_attr = Float32, device_index = Some 0\<rparr>"

definition example_w_4d :: CudnnTensorAttributes where
  "example_w_4d = \<lparr>size_attr = [1, 64, 1, 1], stride_attr = [64, 1, 1, 1],
                    dtype_attr = Float32, device_index = Some 0\<rparr>"

definition example_key :: key where
  "example_key = [example_a_4d, example_w_4d, example_w_4d]"

definition example_entry :: "nat \<Rightarrow> graph_entry" where
  "example_entry n =
     (let input = \<lparr>name = ''input'', dim = Some [128, 64, 1, 1], tensor_stride = [64, 1, 1, 1],
                    data_type = FLOAT, is_pass_by_value = False, is_output = False\<rparr>;
          scale = \<lparr>name = ''scale'', dim = Some [1, 64, 1, 1], tensor_stride = [64, 1, 1, 1],
                    data_type = FLOAT, is_pass_by_value = False, is_output = False\<rparr>;
          bias = \<lparr>name = ''bias'', dim = Some [1, 64, 1, 1], tensor_stride = [64, 1, 1, 1],
                   data_type = FLOAT, is_pass_by_value = False, is_output = False\<rparr>;
          epsilon = \<lparr>name = ''epsilon'', dim = Some [1, 1, 1, 1], tensor_stride = [1, 1, 1, 1],
                      data_type = FLOAT, is_pass_by_value = True, is_output = False\<rparr>;
          Y = \<lparr>name = ''LN::Y'', dim = None, tensor_stride = [64, 1, 1, 1],
                data_type = FLOAT, is_pass_by_value = False, is_output = True\<rparr>
      in (input, scale, bias, epsilon, Y,
          \<lparr>graph_id = n, intermediate_data_type = FLOAT, compute_data_type = FLOAT,
           ln_phase = INFERENCE, ln_input = input, ln_scale = scale, ln_bias = bias,
           ln_epsilon = epsilon, ln_Y = Y, heur_modes = [Heur_A]\<rparr>))"



text \<open>An input with a zero extent under normalization, shape \<open>(8, 0)\<close> normalized
  over \<open>(0,)\<close>, its canonical descriptors, and the entry the graph builder returns
  for them from the initial state when cudnn accepts the graph.\<close>

definition empty_input :: torch_tensor where
  "empty_input = \<lparr>shape = [8, 0], stride = [1, 1], dtype = Float32,
                   device = cuda_device 0, storage = 300, contents = Data 4\<rparr>"

definition empty_weight :: torch_tensor where
  "empty_weight = \<lparr>shape = [0], stride = [1], dtype = Float32,
                    device = cuda_device 0, storage = 301, contents = Data 5\<rparr>"

definition empty_a_4d :: CudnnTensorAttributes where
  "empty_a_4d = \<lparr>size_attr = [8, 0, 1, 1], stride_attr = [0, 1, 1, 1],
                  dtype_attr = Float32, device_index = Some 0\<rparr>"

definition empty_w_4d :: CudnnTensorAttributes where
  "empty_w_4d = \<lparr>size_attr = [1, 0, 1, 1], stride_attr = [0, 1, 1, 1],
                  dtype_attr = Float32, device_index = Some 0\<rparr>"

definition empty_entry :: graph_entry where
  "empty_entry =
     (let input = \<lparr>name = ''input'', dim = Some [8, 0, 1, 1], tensor_stride = [0, 1, 1, 1],
                    data_type = FLOAT, is_pass_by_value = False, is_output = False\<rparr>;
          scale = \<lparr>name = ''scale'', dim = Some [1, 0, 1, 1], tensor_stride = [0, 1, 1, 1],
                    data_type = FLOAT, is_pass_by_value = False, is_output = False\<rparr>;
          bias = \<lparr>name = ''bias'', dim = Some [1, 0, 1, 1], tensor_stride = [0, 1, 1, 1],
                   data_type = FLOAT, is_pass_by_value = False, is_output = False\<rparr>;
          epsilon = \<lparr>name = ''epsilon'', dim = Some [1, 1, 1, 1], tensor_stride = [1, 1, 1, 1],
                      data_type = FLOAT, is_pass_by_value = True, is_output = False\<rparr>;
          Y = \<lparr>name = ''LN::Y'', dim = None, tensor_stride = [0, 1, 1, 1],
                data_type = FLOAT, is_pass_by_value = False, is_output = True\<rparr>
      in (input, scale, bias, epsilon, Y,
          \<lparr>graph_id = 0, intermediate_data_type = FLOAT, compute_data_type = FLOAT,
           ln_phase = INFERENCE, ln_input = input, ln_scale = scale, ln_bias = bias,
           ln_epsilon = epsilon, ln_Y = Y, heur_modes = [Heur_A]\<rparr>))"


section \<open>The canonical layout\<close>

text \<open>The definitions that evaluate a call on the concrete inputs.\<close>

lemmas eval_defs =
  layer_norm_impl_def layer_norm_checker_def transform_layer_norm_inputs_def tensor_attr_def
  np_prod_def wrap64_def slice_upto_def signed_take_bit_eq_take_bit_shift take_bit_eq_mod
  make_cudnn_layer_norm_graph_def make_cacheable_cudnn_graph_inputs_def cacheable_arg_def
  lru_cache_def lru_store_def maxsize_def make_cudnn_layer_norm_graph_uncached_def cudnn_def
  zeros_like_cuda_def full_1111_float32_cpu_def empty_uint8_cuda_def Let_def
  env_ok_def env_reject_def env_unavailable_def init_state_def example_dtype_map_def
  example_input_def example_input2_def example_weight_def example_bias_def cuda_device_def








lemma transform_example:
  "transform_layer_norm_inputs example_input [64] (Some example_weight) (Some example_bias) =
     Inr (example_a_4d, example_w_4d, example_w_4d)"
  by (simp add: eval_defs example_a_4d_def example_w_4d_def)




section \<open>The wrapper and the cache\<close>

lemma cudnn_input_args_Attrs: "cudnn_input_args args (map Attrs ds) = Inr ds"
  by (induction ds) (simp_all add: cacheable_arg_def)

lemma cudnn_input_args_Tensor:
  "Tensor t \<in> set xs \<Longrightarrow> cudnn_input_args args xs = Inl AttributeError"
proof (induction xs)
  case Nil
  then show ?case by simp
next
  case (Cons x xs)
  show ?case
  proof (cases x)
    case (Tensor u)
    then show ?thesis by (simp add: cacheable_arg_def args_device_index_def)
  next
    case (Attrs d)
    with Cons show ?thesis by (simp add: cacheable_arg_def)
  qed
qed

lemma make_cudnn_layer_norm_graph_Attrs:
  "make_cudnn_layer_norm_graph e st [Attrs a, Attrs w, Attrs b] =
     lru_cache make_cudnn_layer_norm_graph_uncached e st [a, w, b]"
  using cudnn_input_args_Attrs [of "[Attrs a, Attrs w, Attrs b]" "[a, w, b]"]
  by (simp add: make_cudnn_layer_norm_graph_def make_cacheable_cudnn_graph_inputs_def)

text \<open>
  Claim C10. A call of the key-derivation wrapper with a live tensor among its positional
  arguments raises \<open>AttributeError\<close> and leaves the state as it was, whatever the
  wrapped function is: the function is not reached. Arguments that are descriptors
  pass through unchanged, and this is how both callers of the module invoke the graph
  builder, which for them is the cached function itself.
\<close>

theorem wrapper_raises_on_tensor:
  "(Tensor t \<in> set args \<longrightarrow>
      make_cacheable_cudnn_graph_inputs func e st args = (Inl AttributeError, st))
   \<and> make_cacheable_cudnn_graph_inputs func e st (map Attrs ds) = func e st ds
   \<and> make_cudnn_layer_norm_graph e st [Attrs a_4d, Attrs weight_4d, Attrs bias_4d] =
       lru_cache make_cudnn_layer_norm_graph_uncached e st [a_4d, weight_4d, bias_4d]"
  by (simp add: make_cacheable_cudnn_graph_inputs_def cudnn_input_args_Tensor
      cudnn_input_args_Attrs make_cudnn_layer_norm_graph_Attrs)

lemma uncached_state:
  "snd (make_cudnn_layer_norm_graph_uncached e st [a, w, b]) =
     st\<lparr>builds := builds st @ [[a, w, b]]\<rparr>"
  by (simp add: make_cudnn_layer_norm_graph_uncached_def Let_def
      split: global_binding.split sum.split option.split)


lemma make_graph_hit:
  "map_of (cache st) [a, w, b] = Some v \<Longrightarrow>
   make_cudnn_layer_norm_graph e st [Attrs a, Attrs w, Attrs b] =
     (Inr v, st\<lparr>cache := ([a, w, b], v) # filter (\<lambda>p. fst p \<noteq> [a, w, b]) (cache st)\<rparr>)"
  by (simp add: make_cudnn_layer_norm_graph_Attrs lru_cache_def)

lemma make_graph_miss:
  assumes "map_of (cache st) [a, w, b] = None"
  shows "make_cudnn_layer_norm_graph e st [Attrs a, Attrs w, Attrs b] =
     (case fst (make_cudnn_layer_norm_graph_uncached e st [a, w, b]) of
        Inl x \<Rightarrow> (Inl x, st\<lparr>builds := builds st @ [[a, w, b]]\<rparr>)
      | Inr v \<Rightarrow> (Inr v, st\<lparr>builds := builds st @ [[a, w, b]],
                              cache := lru_store [a, w, b] v (cache st)\<rparr>))"
proof -
  obtain r st' where r: "make_cudnn_layer_norm_graph_uncached e st [a, w, b] = (r, st')"
    by (cases "make_cudnn_layer_norm_graph_uncached e st [a, w, b]")
  then have st': "st' = st\<lparr>builds := builds st @ [[a, w, b]]\<rparr>"
    using uncached_state [of e st a w b] by simp
  show ?thesis
    using assms r st'
    by (simp add: make_cudnn_layer_norm_graph_Attrs lru_cache_def split: sum.split)
qed









lemma make_graph_miss_fail:
  assumes "make_cudnn_layer_norm_graph e st [Attrs a, Attrs w, Attrs b] = (Inl x, st1)"
  shows "map_of (cache st) [a, w, b] = None \<and> st1 = st\<lparr>builds := builds st @ [[a, w, b]]\<rparr>
    \<and> fst (make_cudnn_layer_norm_graph_uncached e st [a, w, b]) = Inl x"
proof (cases "map_of (cache st) [a, w, b]")
  case None
  show ?thesis
    using assms unfolding make_graph_miss [OF None]
    by (auto simp: None split: sum.splits)
next
  case (Some v)
  with assms show ?thesis by (simp add: make_graph_hit)
qed

lemma make_graph_miss_builds:
  assumes "map_of (cache st) [a, w, b] = None"
  shows "builds (snd (make_cudnn_layer_norm_graph e st [Attrs a, Attrs w, Attrs b])) =
     builds st @ [[a, w, b]]"
  unfolding make_graph_miss [OF assms] by (simp split: sum.split)



lemma uncached_example:
  "make_cudnn_layer_norm_graph_uncached env_ok st [example_a_4d, example_w_4d, example_w_4d] =
     (Inr (example_entry (length (builds st))),
      st\<lparr>builds := builds st @ [[example_a_4d, example_w_4d, example_w_4d]]\<rparr>)"
  by (simp add: make_cudnn_layer_norm_graph_uncached_def cudnn_def env_ok_def
      example_dtype_map_def example_a_4d_def example_w_4d_def example_entry_def Let_def)



theorem wrapper_raises_on_tensor_witness:
  "Tensor example_input \<in> set [Tensor example_input, Attrs example_w_4d, Attrs example_w_4d]
   \<and> make_cudnn_layer_norm_graph env_ok init_state
        [Tensor example_input, Attrs example_w_4d, Attrs example_w_4d] =
      (Inl AttributeError, init_state)
   \<and> make_cudnn_layer_norm_graph env_ok init_state
        [Attrs example_a_4d, Attrs example_w_4d, Attrs example_w_4d] =
      lru_cache make_cudnn_layer_norm_graph_uncached env_ok init_state
        [example_a_4d, example_w_4d, example_w_4d]"
  using wrapper_raises_on_tensor
    [where t = example_input
       and args = "[Tensor example_input, Attrs example_w_4d, Attrs example_w_4d]"
       and func = "lru_cache make_cudnn_layer_norm_graph_uncached"
       and e = env_ok and st = init_state
       and a_4d = example_a_4d and weight_4d = example_w_4d and bias_4d = example_w_4d]
  by (simp add: make_cudnn_layer_norm_graph_def)

text \<open>
  Claim C7. When a call of the graph builder raises, the cache is what it was before the
  call and holds no entry for the key; the builder's body has run once for it. The
  next call with the same key runs the body again, and its outcome is that of this fresh
  compilation, in whatever state the accelerator is then: no failure is replayed. The
  compatibility check turns the exception of its dry run into \<open>False\<close> and leaves the
  same state behind.
\<close>

theorem compilation_failure_not_cached:
  assumes "make_cudnn_layer_norm_graph e st [Attrs a, Attrs w, Attrs b] = (Inl x, st')"
  shows "cache st' = cache st
       \<and> map_of (cache st') [a, w, b] = None
       \<and> builds st' = builds st @ [[a, w, b]]
       \<and> builds (snd (make_cudnn_layer_norm_graph e' st' [Attrs a, Attrs w, Attrs b])) =
           builds st @ [[a, w, b], [a, w, b]]
       \<and> fst (make_cudnn_layer_norm_graph e' st' [Attrs a, Attrs w, Attrs b]) =
           fst (make_cudnn_layer_norm_graph_uncached e' st' [a, w, b])
       \<and> (cudnn_available e \<and>
          transform_layer_norm_inputs t ns weight bias = Inr (a, w, b) \<longrightarrow>
            layer_norm_checker e st t ns weight bias eps = (Inr False, st'))"
proof -
  from make_graph_miss_fail [OF assms]
  have miss: "map_of (cache st) [a, w, b] = None"
    and st': "st' = st\<lparr>builds := builds st @ [[a, w, b]]\<rparr>"
    by simp_all
  have miss': "map_of (cache st') [a, w, b] = None"
    using miss st' by simp
  have again: "builds (snd (make_cudnn_layer_norm_graph e' st' [Attrs a, Attrs w, Attrs b])) =
      builds st' @ [[a, w, b]]"
    by (rule make_graph_miss_builds [OF miss'])
  have fresh: "fst (make_cudnn_layer_norm_graph e' st' [Attrs a, Attrs w, Attrs b]) =
      fst (make_cudnn_layer_norm_graph_uncached e' st' [a, w, b])"
    unfolding make_graph_miss [OF miss'] by (simp split: sum.split)
  have check: "layer_norm_checker e st t ns weight bias eps = (Inr False, st')"
    if "cudnn_available e" "transform_layer_norm_inputs t ns weight bias = Inr (a, w, b)"
    using that assms by (simp add: layer_norm_checker_def cudnn_def)
  show ?thesis
    using miss' st' again fresh check by simp
qed

lemma uncached_reject:
  "make_cudnn_layer_norm_graph_uncached env_reject st [example_a_4d, example_w_4d, example_w_4d] =
     (Inl CudnnError, st\<lparr>builds := builds st @ [[example_a_4d, example_w_4d, example_w_4d]]\<rparr>)"
  by (simp add: make_cudnn_layer_norm_graph_uncached_def cudnn_def env_reject_def env_ok_def
      example_dtype_map_def example_a_4d_def example_w_4d_def Let_def)

lemma rejected_call_example:
  "make_cudnn_layer_norm_graph env_reject init_state
      [Attrs example_a_4d, Attrs example_w_4d, Attrs example_w_4d] =
     (Inl CudnnError, init_state\<lparr>builds := [example_key]\<rparr>)"
proof -
  have "map_of (cache init_state) [example_a_4d, example_w_4d, example_w_4d] = None"
    by (simp add: init_state_def)
  from make_graph_miss [OF this, of env_reject] show ?thesis
    by (simp add: uncached_reject init_state_def example_key_def)
qed

lemma cudnn_available_env_reject: "cudnn_available env_reject"
  by (simp add: env_reject_def env_ok_def)

theorem compilation_failure_not_cached_witness:
  "make_cudnn_layer_norm_graph env_reject init_state
      [Attrs example_a_4d, Attrs example_w_4d, Attrs example_w_4d] =
     (Inl CudnnError, init_state\<lparr>builds := [example_key]\<rparr>)
   \<and> cache (init_state\<lparr>builds := [example_key]\<rparr>) = []
   \<and> builds (snd (make_cudnn_layer_norm_graph env_ok (init_state\<lparr>builds := [example_key]\<rparr>)
        [Attrs example_a_4d, Attrs example_w_4d, Attrs example_w_4d])) =
      [example_key, example_key]
   \<and> fst (make_cudnn_layer_norm_graph env_ok (init_state\<lparr>builds := [example_key]\<rparr>)
        [Attrs example_a_4d, Attrs example_w_4d, Attrs example_w_4d]) =
      Inr (example_entry 1)
   \<and> layer_norm_checker env_reject init_state example_input [64] (Some example_weight)
        (Some example_bias) (1 / 100000) =
      (Inr False, init_state\<lparr>builds := [example_key]\<rparr>)"
  using compilation_failure_not_cached
    [where e = env_reject and st = init_state and a = example_a_4d and w = example_w_4d
       and b = example_w_4d and x = CudnnError
       and st' = "init_state\<lparr>builds := [example_key]\<rparr>" and e' = env_ok
       and t = example_input and ns = "[64]" and weight = "Some example_weight"
       and bias = "Some example_bias" and eps = "1 / 100000"]
    rejected_call_example transform_example cudnn_available_env_reject
  by (simp add: uncached_example init_state_def example_key_def)

section \<open>Eviction order\<close>



















section \<open>Execution\<close>

lemma layer_norm_impl_graph:
  assumes "transform_layer_norm_inputs a ns weight bias = Inr (a_4d, w_4d, b_4d)"
    and "make_cudnn_layer_norm_graph e st [Attrs a_4d, Attrs w_4d, Attrs b_4d] =
           (Inr (input, scale, B, epsilon, Y, graph), st')"
  shows "layer_norm_impl e st a ns weight bias eps =
     (let Y_actual = \<lparr>shape = shape a, stride = preserve_format_stride e a, dtype = dtype a,
                       device = \<lparr>dev_type = CUDA, index = Some (current_cuda_device e)\<rparr>,
                       storage = allocated st', contents = Zeros\<rparr>;
          epsilon_cpu = \<lparr>shape = [1, 1, 1, 1], stride = [1, 1, 1, 1], dtype = Float32,
                         device = \<lparr>dev_type = CPU, index = None\<rparr>,
                         storage = Suc (allocated st'), contents = Full eps\<rparr>;
          workspace = \<lparr>shape = [int (get_workspace_size e graph)], stride = [1], dtype = UInt8,
                       device = \<lparr>dev_type = CUDA, index = Some (current_cuda_device e)\<rparr>,
                       storage = Suc (Suc (allocated st')), contents = Uninitialized\<rparr>;
          pack = [(input, Some a), (scale, weight), (B, bias),
                  (epsilon, Some epsilon_cpu), (Y, Some Y_actual)];
          st_end = st'\<lparr>allocated := Suc (Suc (Suc (allocated st'))),
                        executed := executed st' @ [(graph, pack, workspace)]\<rparr>
      in case graph_execute e graph pack workspace of
           Inl x \<Rightarrow> (Inl x, st_end)
         | Inr written \<Rightarrow> (Inr (Y_actual\<lparr>contents := written\<rparr>), st_end))"
  using assms
  by (simp add: layer_norm_impl_def zeros_like_cuda_def full_1111_float32_cpu_def
      empty_uint8_cuda_def Let_def split: sum.split)

lemma layer_norm_impl_graph_fail:
  assumes "transform_layer_norm_inputs a ns weight bias = Inr (a_4d, w_4d, b_4d)"
    and "make_cudnn_layer_norm_graph e st [Attrs a_4d, Attrs w_4d, Attrs b_4d] = (Inl x, st')"
  shows "layer_norm_impl e st a ns weight bias eps = (Inl x, st')"
  using assms by (simp add: layer_norm_impl_def)





lemma transform_size:
  assumes "transform_layer_norm_inputs a ns weight bias = Inr (a_4d, w_4d, b_4d)"
  shows "size_attr a_4d = [np_prod (slice_upto (shape a) (- int (length ns))), np_prod ns, 1, 1]"
  using assms
  by (auto simp: transform_layer_norm_inputs_def Let_def split: sum.splits)

text \<open>
  Claim C5, as amended. The module has no check of degenerate shapes. For a request
  whose canonical input descriptor has a non-positive extent, the canonicalizer
  returns the descriptors with that extent as computed; on a cache miss the execution
  entry point invokes the graph builder with them; when the builder raises, the entry
  point raises the builder's exception and the cache is what it was; when the builder
  accepts the graph, the entry is cached like any other.
\<close>

theorem degenerate_shape_not_checked:
  assumes "transform_layer_norm_inputs a ns weight bias = Inr (a_4d, w_4d, b_4d)"
    and "\<exists>d \<in> set (size_attr a_4d). d \<le> 0"
    and "map_of (cache st) [a_4d, w_4d, b_4d] = None"
  shows "size_attr a_4d =
           [np_prod (slice_upto (shape a) (- int (length ns))), np_prod ns, 1, 1]
       \<and> builds (snd (layer_norm_impl e st a ns weight bias eps)) =
           builds st @ [[a_4d, w_4d, b_4d]]
       \<and> (fst (make_cudnn_layer_norm_graph_uncached e st [a_4d, w_4d, b_4d]) = Inl x \<longrightarrow>
            layer_norm_impl e st a ns weight bias eps =
              (Inl x, st\<lparr>builds := builds st @ [[a_4d, w_4d, b_4d]]\<rparr>))
       \<and> (fst (make_cudnn_layer_norm_graph_uncached e' st [a_4d, w_4d, b_4d]) = Inr v \<longrightarrow>
            cache (snd (layer_norm_impl e' st a ns weight bias eps)) =
              lru_store [a_4d, w_4d, b_4d] v (cache st))"
proof -
  let ?k = "[a_4d, w_4d, b_4d]"
  let ?st = "st\<lparr>builds := builds st @ [?k]\<rparr>"
  have fail: "layer_norm_impl env st a ns weight bias eps = (Inl x', ?st)"
    if "fst (make_cudnn_layer_norm_graph_uncached env st ?k) = Inl x'" for env x'
  proof -
    from that
    have "make_cudnn_layer_norm_graph env st [Attrs a_4d, Attrs w_4d, Attrs b_4d] = (Inl x', ?st)"
      unfolding make_graph_miss [OF assms(3)] by simp
    from layer_norm_impl_graph_fail [OF assms(1) this] show ?thesis .
  qed
  have ok: "cache (snd (layer_norm_impl env st a ns weight bias eps)) = lru_store ?k v' (cache st)
      \<and> builds (snd (layer_norm_impl env st a ns weight bias eps)) = builds st @ [?k]"
    if "fst (make_cudnn_layer_norm_graph_uncached env st ?k) = Inr v'" for env v'
  proof -
    obtain input scale B epsilon Y graph where v': "v' = (input, scale, B, epsilon, Y, graph)"
      by (cases v')
    have "make_cudnn_layer_norm_graph env st [Attrs a_4d, Attrs w_4d, Attrs b_4d] =
        (Inr (input, scale, B, epsilon, Y, graph), ?st\<lparr>cache := lru_store ?k v' (cache st)\<rparr>)"
      unfolding make_graph_miss [OF assms(3)] using that v' by simp
    from layer_norm_impl_graph [OF assms(1) this] show ?thesis
      by (simp add: Let_def split: sum.split)
  qed
  have "builds (snd (layer_norm_impl e st a ns weight bias eps)) = builds st @ [?k]"
  proof (cases "fst (make_cudnn_layer_norm_graph_uncached e st ?k)")
    case (Inl x')
    from fail [OF this] show ?thesis by simp
  next
    case (Inr v')
    from ok [OF this] show ?thesis by simp
  qed
  with fail ok transform_size [OF assms(1)] show ?thesis
    by blast
qed

lemma transform_empty:
  "transform_layer_norm_inputs empty_input [0] (Some empty_weight) (Some empty_weight) =
     Inr (empty_a_4d, empty_w_4d, empty_w_4d)"
  by (simp add: eval_defs empty_input_def empty_weight_def empty_a_4d_def empty_w_4d_def)

lemma uncached_empty_reject:
  "fst (make_cudnn_layer_norm_graph_uncached env_reject init_state
          [empty_a_4d, empty_w_4d, empty_w_4d]) = Inl CudnnError"
  by (simp add: eval_defs empty_a_4d_def empty_w_4d_def)

lemma uncached_empty_ok:
  "fst (make_cudnn_layer_norm_graph_uncached env_ok init_state
          [empty_a_4d, empty_w_4d, empty_w_4d]) = Inr empty_entry"
  by (simp add: eval_defs empty_a_4d_def empty_w_4d_def empty_entry_def)

theorem degenerate_shape_not_checked_witness:
  "transform_layer_norm_inputs empty_input [0] (Some empty_weight) (Some empty_weight) =
     Inr (empty_a_4d, empty_w_4d, empty_w_4d)
   \<and> size_attr empty_a_4d = [8, 0, 1, 1]
   \<and> layer_norm_impl env_reject init_state empty_input [0] (Some empty_weight)
        (Some empty_weight) (1 / 100000) =
      (Inl CudnnError, init_state\<lparr>builds := [[empty_a_4d, empty_w_4d, empty_w_4d]]\<rparr>)
   \<and> cache (snd (layer_norm_impl env_ok init_state empty_input [0] (Some empty_weight)
        (Some empty_weight) (1 / 100000))) =
      [([empty_a_4d, empty_w_4d, empty_w_4d], empty_entry)]"
  using degenerate_shape_not_checked
    [where a = empty_input and ns = "[0]" and weight = "Some empty_weight"
       and bias = "Some empty_weight" and a_4d = empty_a_4d and w_4d = empty_w_4d
       and b_4d = empty_w_4d and st = init_state and e = env_reject and x = CudnnError
       and e' = env_ok and v = empty_entry and eps = "1 / 100000"]
    transform_empty uncached_empty_reject uncached_empty_ok
  by (simp add: init_state_def empty_a_4d_def lru_store_def maxsize_def)

text \<open>Claim C5 as stated fails: for shape \<open>(8, 0)\<close> normalized over \<open>(0,)\<close>
  the canonical extent \<open>C\<close> is 0, no exception is raised, the graph builder runs,
  and where cudnn accepts the graph the cache gains its entry.\<close>

theorem degenerate_shape_counterexample:
  "np_prod [0] = 0
   \<and> transform_layer_norm_inputs empty_input [0] (Some empty_weight) (Some empty_weight) =
      Inr (empty_a_4d, empty_w_4d, empty_w_4d)
   \<and> size_attr empty_a_4d = [8, 0, 1, 1]
   \<and> fst (layer_norm_impl env_ok init_state empty_input [0] (Some empty_weight)
        (Some empty_weight) (1 / 100000)) =
      Inr \<lparr>shape = [8, 0], stride = [1, 1], dtype = Float32,
           device = cuda_device 0, storage = 0, contents = Data 9\<rparr>
   \<and> builds (snd (layer_norm_impl env_ok init_state empty_input [0] (Some empty_weight)
        (Some empty_weight) (1 / 100000))) = [[empty_a_4d, empty_w_4d, empty_w_4d]]
   \<and> cache init_state = []
   \<and> map fst (cache (snd (layer_norm_impl env_ok init_state empty_input [0] (Some empty_weight)
        (Some empty_weight) (1 / 100000)))) = [[empty_a_4d, empty_w_4d, empty_w_4d]]"
  by (simp add: eval_defs empty_input_def empty_weight_def empty_a_4d_def empty_w_4d_def)

section \<open>The compatibility check\<close>

text \<open>
  Claim C6 does not hold of the code. Where cudnn is unavailable the global
  \<^verbatim>\<open>cudnn\<close> is unbound, and the test \<^verbatim>\<open>cudnn is None\<close> of line 109 raises
  \<^verbatim>\<open>NameError\<close> instead of leading to \<^verbatim>\<open>return False\<close>. Where cudnn is available
  and the weight and the bias are \<^verbatim>\<open>None\<close>, their default, the canonicalization of
  line 112, which stands outside the \<^verbatim>\<open>try\<close>, raises \<^verbatim>\<open>AttributeError\<close>.
\<close>

theorem layer_norm_checker_raises:
  "layer_norm_checker env_unavailable init_state example_input [64] (Some example_weight)
      (Some example_bias) (1 / 100000) = (Inl NameError, init_state)
   \<and> layer_norm_checker env_ok init_state example_input [64] None None (1 / 100000) =
      (Inl AttributeError, init_state)"
  by (simp add: eval_defs)

text \<open>Both failures are general, and they are the only ones: with cudnn available, a
  weight and a bias, the check returns a boolean, \<open>False\<close> exactly when the graph
  builder raised.\<close>

lemma layer_norm_checker_unavailable:
  "\<not> cudnn_available e \<Longrightarrow> layer_norm_checker e st a ns weight bias eps = (Inl NameError, st)"
  by (simp add: layer_norm_checker_def cudnn_def)

lemma layer_norm_checker_no_weight:
  "cudnn_available e \<Longrightarrow> weight = None \<or> bias = None \<Longrightarrow>
   layer_norm_checker e st a ns weight bias eps = (Inl AttributeError, st)"
  by (auto simp: layer_norm_checker_def cudnn_def transform_layer_norm_inputs_def
      tensor_attr_def Let_def split: option.splits)

lemma layer_norm_checker_available:
  assumes "cudnn_available e"
    and "transform_layer_norm_inputs a ns (Some w) (Some b) = Inr (a_4d, w_4d, b_4d)"
  shows "layer_norm_checker e st a ns (Some w) (Some b) eps =
     (case make_cudnn_layer_norm_graph e st [Attrs a_4d, Attrs w_4d, Attrs b_4d] of
        (Inl x, st') \<Rightarrow> (Inr False, st')
      | (Inr entry, st') \<Rightarrow> (Inr True, st'))"
  using assms by (simp add: layer_norm_checker_def cudnn_def)

section \<open>Epsilon and the cache key\<close>







end
